theory Spec2Isabelle
  imports Complex_Main "HOL-Library.Sublist" "HOL-Library.Char_ord" "HOL-Library.List_Lexorder"
    "HOL-Library.Multiset"
begin

section \<open>Python values and exceptions\<close>

text \<open>
  The values that \<open>json.load\<close>, \<open>yaml.safe_load\<close> and \<open>Response.json()\<close> hand to
  \<open>server.py\<close>. Floating-point numbers are an abstract type \<open>'f\<close>; their arithmetic
  is passed in as a record of operations (\<open>fops\<close>), so nothing below depends on a
  particular rounding behaviour. A dictionary is an association list read with
  \<open>map_of\<close> (its keys are strings, as in parsed JSON).
\<close>

datatype 'f pyval =
    PNone
  | PBool bool
  | PInt int
  | PFloat 'f
  | PStr string
  | PList "'f pyval list"
  | PDict "(string \<times> 'f pyval) list"

text \<open>
  Exceptions are values. The detail of an \<open>HTTPException\<close> is kept symbolically:
  \<open>Cat p d\<close> is the f-string \<open>f"p{d}"\<close> and \<open>StrOf e\<close> is \<open>str(e)\<close>.
\<close>

datatype exn =
    TypeError
  | KeyError
  | ValueError
  | OverflowError
  | AttributeError
  | OSError
  | RequestException
  | HTTPError
  | JSONDecodeError
  | CalledProcessError
  | OperationalError
  | DatabaseError
  | HTTPException nat detail
and detail =
    Lit string
  | StrOf exn
  | Cat string detail

record 'f fops =
  fadd :: "'f \<Rightarrow> 'f \<Rightarrow> 'f"
  fmul :: "'f \<Rightarrow> 'f \<Rightarrow> 'f"
  fround2 :: "'f \<Rightarrow> 'f"
  fzero :: "'f"
  fis_zero :: "'f \<Rightarrow> bool"
  fof_int :: "int \<Rightarrow> 'f option"
  fof_str :: "string \<Rightarrow> 'f option"

text \<open>
  \<open>fadd\<close>, \<open>fmul\<close>: float \<open>+\<close> and \<open>*\<close>; \<open>fround2 x\<close>: \<open>round(x, 2)\<close> on a float;
  \<open>fzero\<close>: the float that the int \<open>0\<close> becomes in a mixed addition; \<open>fis_zero x\<close>:
  \<open>x == 0\<close>; \<open>fof_int\<close>, \<open>fof_str\<close>: \<open>float(i)\<close> and \<open>float(s)\<close>, \<open>None\<close> where
  Python raises \<open>OverflowError\<close> or \<open>ValueError\<close>.
\<close>

definition py_truthy :: "'f fops \<Rightarrow> 'f pyval \<Rightarrow> bool" where
  "py_truthy ops v =
     (case v of
        PNone \<Rightarrow> False
      | PBool b \<Rightarrow> b
      | PInt i \<Rightarrow> i \<noteq> 0
      | PFloat x \<Rightarrow> \<not> fis_zero ops x
      | PStr s \<Rightarrow> s \<noteq> []
      | PList xs \<Rightarrow> xs \<noteq> []
      | PDict kv \<Rightarrow> kv \<noteq> [])"

definition py_getitem :: "'f pyval \<Rightarrow> string \<Rightarrow> exn + 'f pyval" where
  \<comment> \<open>\<open>v[k]\<close> with a string key \<open>k\<close>\<close>
  "py_getitem v k =
     (case v of
        PDict kv \<Rightarrow> (case map_of kv k of None \<Rightarrow> Inl KeyError | Some x \<Rightarrow> Inr x)
      | _ \<Rightarrow> Inl TypeError)"

definition py_getitem0 :: "'f pyval \<Rightarrow> exn + 'f pyval" where
  \<comment> \<open>\<open>v[0]\<close>; a parsed JSON object has no key \<open>0\<close>\<close>
  "py_getitem0 v =
     (case v of
        PList xs \<Rightarrow> (case xs of [] \<Rightarrow> Inl KeyError | x # _ \<Rightarrow> Inr x)
      | PStr s \<Rightarrow> (case s of [] \<Rightarrow> Inl KeyError | c # _ \<Rightarrow> Inr (PStr [c]))
      | PDict kv \<Rightarrow> Inl KeyError
      | _ \<Rightarrow> Inl TypeError)"

definition py_get :: "'f pyval \<Rightarrow> string \<Rightarrow> 'f pyval \<Rightarrow> exn + 'f pyval" where
  \<comment> \<open>\<open>v.get(k, d)\<close>: only a dict has the method\<close>
  "py_get v k d =
     (case v of
        PDict kv \<Rightarrow> Inr (case map_of kv k of None \<Rightarrow> d | Some x \<Rightarrow> x)
      | _ \<Rightarrow> Inl AttributeError)"

definition py_contains :: "string \<Rightarrow> 'f pyval \<Rightarrow> exn + bool" where
  \<comment> \<open>\<open>k in v\<close> with a string \<open>k\<close>: key of a dict, element of a list, substring of a string\<close>
  "py_contains k v =
     (case v of
        PDict kv \<Rightarrow> Inr (k \<in> set (map fst kv))
      | PList xs \<Rightarrow> Inr (PStr k \<in> set xs)
      | PStr s \<Rightarrow> Inr (sublist k s)
      | _ \<Rightarrow> Inl TypeError)"

definition py_len :: "'f pyval \<Rightarrow> exn + nat" where
  "py_len v =
     (case v of
        PDict kv \<Rightarrow> Inr (length (remdups (map fst kv)))
      | PList xs \<Rightarrow> Inr (length xs)
      | PStr s \<Rightarrow> Inr (length s)
      | _ \<Rightarrow> Inl TypeError)"

definition py_float :: "'f fops \<Rightarrow> 'f pyval \<Rightarrow> exn + 'f" where
  \<comment> \<open>\<open>float(v)\<close>\<close>
  "py_float ops v =
     (case v of
        PFloat x \<Rightarrow> Inr x
      | PInt i \<Rightarrow> (case fof_int ops i of None \<Rightarrow> Inl OverflowError | Some x \<Rightarrow> Inr x)
      | PBool b \<Rightarrow>
          (case fof_int ops (if b then 1 else 0) of None \<Rightarrow> Inl OverflowError | Some x \<Rightarrow> Inr x)
      | PStr s \<Rightarrow> (case fof_str ops s of None \<Rightarrow> Inl ValueError | Some x \<Rightarrow> Inr x)
      | _ \<Rightarrow> Inl TypeError)"

definition py_iter :: "'f pyval \<Rightarrow> exn + 'f pyval list" where
  \<comment> \<open>the elements a \<open>for\<close> loop over \<open>v\<close> visits: a dict yields its keys, a string its characters\<close>
  "py_iter v =
     (case v of
        PList xs \<Rightarrow> Inr xs
      | PDict kv \<Rightarrow> Inr (map PStr (remdups (map fst kv)))
      | PStr s \<Rightarrow> Inr (map (\<lambda>c. PStr [c]) s)
      | _ \<Rightarrow> Inl TypeError)"

definition py_round2 :: "'f fops \<Rightarrow> 'f pyval \<Rightarrow> 'f pyval" where
  \<comment> \<open>\<open>round(v, 2)\<close> on the two kinds of number \<open>total_value\<close> can be: an int stays that int\<close>
  "py_round2 ops v = (case v of PFloat x \<Rightarrow> PFloat (fround2 ops x) | _ \<Rightarrow> v)"

definition py_add_float :: "'f fops \<Rightarrow> 'f pyval \<Rightarrow> 'f \<Rightarrow> 'f pyval" where
  \<comment> \<open>\<open>total_value + value\<close> with a float \<open>value\<close>: \<open>total_value\<close> is the int \<open>0\<close> until the
      first addition and a float afterwards\<close>
  "py_add_float ops t x =
     (case t of PFloat y \<Rightarrow> PFloat (fadd ops y x) | _ \<Rightarrow> PFloat (fadd ops (fzero ops) x))"

section \<open>Files, the transaction database and the libraries\<close>

text \<open>
  A path is \<open>Absent\<close>, \<open>Locked\<close> (it exists but cannot be opened: a directory, or no
  permission) or a \<open>File\<close> with its text.
\<close>

datatype node = Absent | Locked | File string

text \<open>
  The selected columns of one row of \<open>transactions\<close>, in the order of the \<open>SELECT\<close>:
  uuid, amount, current_balance, timestamp, type, account, merchant. \<open>'t\<close> is the type
  of the timestamp column with the order \<open>ORDER BY\<close> uses.
\<close>

type_synonym ('v, 't) row = "'v \<times> 'v \<times> 'v \<times> 't \<times> 'v \<times> 'v \<times> 'v"

datatype ('v, 't) table = BadSchema | Rows "('v, 't) row list"

datatype ('v, 't) sqlite = NotADatabase | Database "('v, 't) table option"

datatype ('v, 't) dbnode = DbAbsent | DbLocked | DbFile "('v, 't) sqlite"

record ('v, 't) fs =
  holdings_file :: node
  unfold_config :: node
  db_path :: "('v, 't) dbnode"

record 'f codec =
  json_load :: "string \<Rightarrow> 'f pyval option"
  json_dump :: "'f pyval \<Rightarrow> string"
  yaml_safe_load :: "string \<Rightarrow> 'f pyval option"
  yaml_dump :: "'f pyval \<Rightarrow> string"

section \<open>Helpers of server.py\<close>

definition load_holdings :: "'f codec \<Rightarrow> ('v, 't) fs \<Rightarrow> 'f pyval" where
  "load_holdings cd s =
     (case holdings_file s of
        Absent \<Rightarrow> PList []
      | Locked \<Rightarrow> PList []
      | File txt \<Rightarrow> (case json_load cd txt of None \<Rightarrow> PList [] | Some v \<Rightarrow> v))"

definition save_holdings :: "'f codec \<Rightarrow> 'f pyval \<Rightarrow> ('v, 't) fs \<Rightarrow> exn + ('v, 't) fs" where
  "save_holdings cd holdings s =
     (case holdings_file s of
        Locked \<Rightarrow> Inl OSError
      | _ \<Rightarrow> Inr (s\<lparr>holdings_file := File (json_dump cd holdings)\<rparr>))"

definition ebind :: "'e + 'a \<Rightarrow> ('a \<Rightarrow> 'e + 'b) \<Rightarrow> 'e + 'b" where
  \<comment> \<open>sequencing of two steps, the first of which may raise\<close>
  "ebind m f = (case m of Inl e \<Rightarrow> Inl e | Inr x \<Rightarrow> f x)"

definition token_record :: "string \<Rightarrow> 'f pyval \<Rightarrow> 'f pyval \<Rightarrow> 'f pyval \<Rightarrow> 'f pyval" where
  \<comment> \<open>the dict \<open>config\<close> of \<open>save_unfold_config\<close>; \<open>rnd\<close> is \<open>os.urandom(4).hex()\<close>\<close>
  "token_record rnd access_token refresh_token user_id =
     PDict
       [(''token'', PDict [(''access'', access_token), (''refresh'', refresh_token)]),
        (''fold_user'', PDict [(''uuid'', user_id)]),
        (''device_hash'', PStr (''python-client-'' @ rnd))]"

definition save_unfold_config ::
  "'f codec \<Rightarrow> string \<Rightarrow> 'f pyval \<Rightarrow> 'f pyval \<Rightarrow> 'f pyval \<Rightarrow> ('v, 't) fs \<Rightarrow> exn + ('v, 't) fs" where
  "save_unfold_config cd rnd access_token refresh_token user_id s =
     (let config = token_record rnd access_token refresh_token user_id
      in case unfold_config s of
           Locked \<Rightarrow> Inl OSError
         | _ \<Rightarrow> Inr (s\<lparr>unfold_config := File (yaml_dump cd config)\<rparr>))"

definition get_unfold_token :: "'f codec \<Rightarrow> ('v, 't) fs \<Rightarrow> 'f pyval" where
  "get_unfold_token cd s =
     (case unfold_config s of
        Absent \<Rightarrow> PNone
      | Locked \<Rightarrow> PNone
      | File txt \<Rightarrow>
          (case yaml_safe_load cd txt of
             None \<Rightarrow> PNone
           | Some config \<Rightarrow>
               (case ebind (py_get config ''token'' (PDict [])) (\<lambda>t. py_get t ''access'' PNone) of
                  Inl e \<Rightarrow> PNone
                | Inr a \<Rightarrow> a)))"

section \<open>Endpoints\<close>

text \<open>
  What a \<open>requests\<close> call gives: the call itself raises (\<open>NetworkError\<close>), or there is a
  response with a status code and a body that is JSON (\<open>Some\<close>) or not (\<open>None\<close>, where
  \<open>.json()\<close> raises).
\<close>

datatype 'f response = NetworkError | Response nat "'f pyval option"

definition raise_for_status :: "nat \<Rightarrow> exn + unit" where
  "raise_for_status st = (if 400 \<le> st \<and> st < 600 then Inl HTTPError else Inr ())"

definition response_json :: "'f pyval option \<Rightarrow> exn + 'f pyval" where
  "response_json body = (case body of None \<Rightarrow> Inl JSONDecodeError | Some j \<Rightarrow> Inr j)"

definition with_country_code :: "string \<Rightarrow> string" where
  "with_country_code phone = (if prefix ''+'' phone then phone else ''+91'' @ phone)"

definition fold_login :: "(string \<Rightarrow> 'f pyval \<Rightarrow> 'f response) \<Rightarrow> string \<Rightarrow> exn + 'f pyval" where
  "fold_login post phone =
     (let payload = PDict [(''phone'', PStr (with_country_code phone)), (''channel'', PStr ''sms'')];
          attempt =
            (case post ''https://api.fold.money/v1/auth/otp'' payload of
               NetworkError \<Rightarrow> Inl RequestException
             | Response st body \<Rightarrow>
                 ebind (raise_for_status st) (\<lambda>_. Inr (PDict [(''status'', PStr ''otp_sent'')])))
      in case attempt of
           Inl e \<Rightarrow> Inl (HTTPException 400 (StrOf e))
         | Inr r \<Rightarrow> Inr r)"




definition fold_status :: "'f codec \<Rightarrow> ('v, 't) fs \<Rightarrow> bool" where
  \<comment> \<open>the value of \<open>logged_in\<close> in the response\<close>
  "fold_status cd s = (get_unfold_token cd s \<noteq> PNone)"

definition get_holdings_api :: "'f codec \<Rightarrow> ('v, 't) fs \<Rightarrow> 'f pyval" where
  "get_holdings_api cd s = load_holdings cd s"

definition set_holdings_api ::
  "'f codec \<Rightarrow> (string \<times> 'f) list \<Rightarrow> ('v, 't) fs \<Rightarrow> (exn + 'f pyval) \<times> ('v, 't) fs" where
  \<comment> \<open>the request body is a list of \<open>Holding(scheme_code: str, units: float)\<close>\<close>
  "set_holdings_api cd holdings s =
     (let data = PList (map (\<lambda>(c, u). PDict [(''scheme_code'', PStr c), (''units'', PFloat u)]) holdings)
      in case save_holdings cd data s of
           Inl e \<Rightarrow> (Inl e, s)
         | Inr s' \<Rightarrow> (Inr (PDict [(''status'', PStr ''updated'')]), s'))"

subsection \<open>Transactions\<close>

text \<open>
  The external tool \<open>./unfold/unfold transactions --db --config ./unfold_config.yaml\<close> is a
  parameter: it may change the files in any way and exits with a return code, or it cannot be
  started at all.
\<close>

datatype run_result = Exited int | NotStarted

definition subprocess_run ::
  "(('v, 't) fs \<Rightarrow> run_result \<times> ('v, 't) fs) \<Rightarrow> ('v, 't) fs \<Rightarrow> (exn + unit) \<times> ('v, 't) fs" where
  \<comment> \<open>\<open>subprocess.run(..., check=True)\<close>\<close>
  "subprocess_run tool s =
     (case tool s of
        (Exited rc, s') \<Rightarrow> (if rc = 0 then Inr () else Inl CalledProcessError, s')
      | (NotStarted, s') \<Rightarrow> (Inl OSError, s))"

record ('v, 't) transaction =
  uuid :: 'v
  amount :: 'v
  current_balance :: 'v
  timestamp :: 't
  type :: 'v
  account :: 'v
  merchant :: 'v

definition row_timestamp :: "('v, 't) row \<Rightarrow> 't" where
  "row_timestamp r = (case r of (u, a, b, t, ty, ac, m) \<Rightarrow> t)"

definition select_recent :: "('v, 't::linorder) row list \<Rightarrow> ('v, 't) row list" where
  \<comment> \<open>\<open>SELECT ... FROM transactions ORDER BY timestamp DESC LIMIT 50\<close>\<close>
  "select_recent rs = take 50 (rev (sort_key row_timestamp rs))"

definition row_to_dict :: "('v, 't) row \<Rightarrow> ('v, 't) transaction" where
  "row_to_dict r =
     (case r of (r0, r1, r2, r3, r4, r5, r6) \<Rightarrow>
        \<lparr>uuid = r0, amount = r1, current_balance = r2, timestamp = r3,
         type = r4, account = r5, merchant = r6\<rparr>)"

definition sqlite3_connect :: "('v, 't) dbnode \<Rightarrow> exn + ('v, 't) sqlite" where
  \<comment> \<open>\<open>sqlite3.connect\<close> on a path that exists: it raises when the file cannot be opened\<close>
  "sqlite3_connect n =
     (case n of
        DbFile d \<Rightarrow> Inr d
      | _ \<Rightarrow> Inl OperationalError)"

definition read_transactions :: "('v, 't::linorder) sqlite \<Rightarrow> exn + ('v, 't) transaction list" where
  \<comment> \<open>the body of the \<open>try\<close> in \<open>get_transactions\<close>\<close>
  "read_transactions d =
     (case d of
        NotADatabase \<Rightarrow> Inl DatabaseError
      | Database None \<Rightarrow> Inr []
      | Database (Some BadSchema) \<Rightarrow> Inl OperationalError
      | Database (Some (Rows rs)) \<Rightarrow> Inr (map row_to_dict (select_recent rs)))"

definition get_transactions ::
  "'f fops \<Rightarrow> 'f codec \<Rightarrow> (('v, 't) fs \<Rightarrow> run_result \<times> ('v, 't) fs) \<Rightarrow> ('v, 't::linorder) fs \<Rightarrow>
   (exn + ('v, 't) transaction list) \<times> ('v, 't) fs \<times> nat" where
  \<comment> \<open>the third component counts the runs of the external tool\<close>
  "get_transactions ops cd tool s =
     (let (s1, runs) =
            (if db_path s = DbAbsent \<or> py_truthy ops (get_unfold_token cd s)
             then (if db_path s = DbAbsent then (snd (subprocess_run tool s), 1) else (s, 0))
             else (s, 0))
      in if db_path s1 = DbAbsent then (Inr [], s1, runs)
         else case sqlite3_connect (db_path s1) of
                Inl e \<Rightarrow> (Inl e, s1, runs)
              | Inr conn \<Rightarrow>
                  (case read_transactions conn of
                     Inl e \<Rightarrow> (Inr [], s1, runs)
                   | Inr results \<Rightarrow> (Inr results, s1, runs)))"

definition sync_transactions ::
  "(('v, 't) fs \<Rightarrow> run_result \<times> ('v, 't) fs) \<Rightarrow> ('v, 't) fs \<Rightarrow> (exn + 'f pyval) \<times> ('v, 't) fs" where
  "sync_transactions tool s =
     (case subprocess_run tool s of
        (Inr u, s') \<Rightarrow> (Inr (PDict [(''status'', PStr ''success'')]), s')
      | (Inl e, s') \<Rightarrow>
          (if e = CalledProcessError
           then (Inl (HTTPException 500 (Lit ''Failed to sync. Ensure you are logged in.'')), s')
           else (Inl (HTTPException 500 (StrOf e)), s')))"

subsection \<open>Portfolio\<close>

record 'f priced =
  scheme_code :: "'f pyval"
  scheme_name :: "'f pyval"
  units :: 'f
  nav :: 'f
  current_value :: 'f

record 'f valuation =
  portfolio :: "'f priced list"
  total_value :: "'f pyval"

definition holding_fields :: "'f fops \<Rightarrow> 'f pyval \<Rightarrow> exn + ('f pyval \<times> 'f)" where
  \<comment> \<open>\<open>code = holding["scheme_code"]; units = float(holding["units"])\<close>, before the \<open>try\<close>\<close>
  "holding_fields ops holding =
     ebind (py_getitem holding ''scheme_code'') (\<lambda>code.
     ebind (py_getitem holding ''units'') (\<lambda>u.
     ebind (py_float ops u) (\<lambda>units. Inr (code, units))))"

definition price_lookup ::
  "'f fops \<Rightarrow> ('f pyval \<Rightarrow> 'f response) \<Rightarrow> 'f pyval \<Rightarrow> 'f \<Rightarrow> exn + ('f priced \<times> 'f) option" where
  \<comment> \<open>the body of the \<open>try\<close> in \<open>get_portfolio\<close>; \<open>feed code\<close> is the response to
      \<open>GET https://api.mfapi.in/mf/{code}\<close>. \<open>Inr None\<close>: the \<open>if\<close> was false;
      \<open>Inr (Some (entry, value))\<close>: the entry appended and the value added\<close>
  "price_lookup ops feed code held =
     (case feed code of
        NetworkError \<Rightarrow> Inl RequestException
      | Response st body \<Rightarrow>
          ebind (response_json body) (\<lambda>data.
            if \<not> py_truthy ops data then Inr None
            else ebind (py_contains ''data'' data) (\<lambda>has_data.
              if \<not> has_data then Inr None
              else ebind (py_getitem data ''data'') (\<lambda>points.
                   ebind (py_len points) (\<lambda>n.
                     if \<not> n > 0 then Inr None
                     else ebind (py_getitem0 points) (\<lambda>point.
                          ebind (py_getitem point ''nav'') (\<lambda>nav_raw.
                          ebind (py_float ops nav_raw) (\<lambda>nav.
                          ebind (py_getitem data ''meta'') (\<lambda>meta.
                          ebind (py_getitem meta ''scheme_name'') (\<lambda>fund_name.
                            let value = fmul ops held nav
                            in Inr (Some (\<lparr>scheme_code = code, scheme_name = fund_name,
                                            units = held, nav = nav,
                                            current_value = fround2 ops value\<rparr>, value))))))))))))"

fun portfolio_loop ::
  "'f fops \<Rightarrow> ('f pyval \<Rightarrow> 'f response) \<Rightarrow> 'f pyval list \<Rightarrow> 'f priced list \<times> 'f pyval \<Rightarrow>
   exn + 'f priced list \<times> 'f pyval" where
  "portfolio_loop ops feed [] acc = Inr acc"
| "portfolio_loop ops feed (holding # rest) (entries, running) =
     (case holding_fields ops holding of
        Inl e \<Rightarrow> Inl e
      | Inr (code, held) \<Rightarrow>
          (case price_lookup ops feed code held of
             Inr (Some (entry, value)) \<Rightarrow>
               portfolio_loop ops feed rest (entries @ [entry], py_add_float ops running value)
           | _ \<Rightarrow> portfolio_loop ops feed rest (entries, running)))"

definition get_portfolio ::
  "'f fops \<Rightarrow> 'f codec \<Rightarrow> ('f pyval \<Rightarrow> 'f response) \<Rightarrow> ('v, 't) fs \<Rightarrow> exn + 'f valuation" where
  "get_portfolio ops cd feed s =
     ebind (py_iter (load_holdings cd s)) (\<lambda>holdings.
     ebind (portfolio_loop ops feed holdings ([], PInt 0)) (\<lambda>(entries, running).
       Inr \<lparr>portfolio = entries, total_value = py_round2 ops running\<rparr>))"

section \<open>The valuation as the specification words it\<close>

text \<open>
  The specification describes the valuation without the loop: the Priced Holdings of the
  holdings whose price lookup succeeded, in the order of the holdings, and the rounded sum
  of their un-rounded values. \<open>priced_holding\<close> is the Priced Holding of one holding
  together with its un-rounded value; the sum is taken from the int \<open>0\<close>, left to right.
\<close>

definition priced_holding ::
  "'f fops \<Rightarrow> ('f pyval \<Rightarrow> 'f response) \<Rightarrow> 'f pyval \<Rightarrow> ('f priced \<times> 'f) option" where
  "priced_holding ops feed holding =
     (case holding_fields ops holding of
        Inl e \<Rightarrow> None
      | Inr (code, held) \<Rightarrow>
          (case price_lookup ops feed code held of
             Inr (Some priced_and_value) \<Rightarrow> Some priced_and_value
           | _ \<Rightarrow> None))"


section \<open>A concrete instance\<close>

text \<open>
  An instance to run the definitions on: floats are rationals with exact arithmetic,
  \<open>float(s)\<close> reads a string of decimal digits, the two codecs know a few texts, and a
  timestamp is a string compared lexicographically.
\<close>

definition digit_val :: "char \<Rightarrow> nat" where
  "digit_val c = of_char c - 48"

definition is_digit :: "char \<Rightarrow> bool" where
  "is_digit c = (48 \<le> (of_char c :: nat) \<and> (of_char c :: nat) \<le> 57)"

definition demo_ops :: "rat fops" where
  "demo_ops =
     \<lparr>fadd = (\<lambda>x y. x + y),
      fmul = (\<lambda>x y. x * y),
      fround2 = (\<lambda>x. of_int (round (x * 100)) / 100),
      fzero = 0,
      fis_zero = (\<lambda>x. x = 0),
      fof_int = (\<lambda>i. Some (of_int i)),
      fof_str = (\<lambda>s. if s \<noteq> [] \<and> list_all is_digit s
                       then Some (of_nat (foldl (\<lambda>n c. 10 * n + digit_val c) 0 s))
                       else None)\<rparr>"

definition demo_holdings :: "rat pyval" where
  "demo_holdings =
     PList [PDict [(''scheme_code'', PStr ''A''), (''units'', PFloat 2)],
            PDict [(''scheme_code'', PStr ''B''), (''units'', PFloat 3)]]"

definition demo_token :: "rat pyval" where
  "demo_token = token_record ''0a1b2c3d'' (PStr ''acc'') (PStr ''ref'') (PStr ''u-1'')"

definition demo_codec :: "rat codec" where
  "demo_codec =
     \<lparr>json_load = (\<lambda>txt. if txt = ''[A:2, B:3]'' then Some demo_holdings
                          else if txt = ''[]'' then Some (PList [])
                          else if txt = ''[A:lots]''
                          then Some (PList [PDict [(''scheme_code'', PStr ''A''),
                                                   (''units'', PStr ''lots'')]])
                          else if txt = ''[x]'' then Some (PList [PStr ''x''])
                          else None),
      json_dump = (\<lambda>v. if v = demo_holdings then ''[A:2, B:3]''
                        else if v = PList [] then ''[]''
                        else ''null''),
      yaml_safe_load = (\<lambda>txt. if txt = ''token: acc'' then Some demo_token else None),
      yaml_dump = (\<lambda>v. if v = demo_token then ''token: acc'' else ''null'')\<rparr>"

definition demo_fs :: "(rat pyval, string) fs" where
  "demo_fs = \<lparr>holdings_file = File ''[x]'', unfold_config = Absent, db_path = DbAbsent\<rparr>"

definition demo_rows :: "(rat pyval, string) row list" where
  "demo_rows =
     [(PStr ''t1'', PFloat 120, PFloat 880, ''2024-01-02T10:00'', PStr ''DEBIT'', PStr ''hdfc'', PStr ''cafe''),
      (PStr ''t2'', PFloat 50, PFloat 830, ''2024-01-03T09:30'', PStr ''DEBIT'', PStr ''hdfc'', PStr ''metro''),
      (PStr ''t0'', PFloat 1000, PFloat 1000, ''2024-01-01T08:00'', PStr ''CREDIT'', PStr ''hdfc'', PStr ''salary'')]"

definition demo_tool_fail :: "(rat pyval, string) fs \<Rightarrow> run_result \<times> (rat pyval, string) fs" where
  \<comment> \<open>the tool exits with status 1 and writes nothing\<close>
  "demo_tool_fail s = (Exited 1, s)"

definition demo_tool_ok :: "(rat pyval, string) fs \<Rightarrow> run_result \<times> (rat pyval, string) fs" where
  \<comment> \<open>the tool writes the database and exits with status 0\<close>
  "demo_tool_ok s = (Exited 0, s\<lparr>db_path := DbFile (Database (Some (Rows demo_rows)))\<rparr>)"


definition demo_feed :: "rat pyval \<Rightarrow> rat response" where
  \<comment> \<open>the price feed knows scheme \<open>A\<close> with nav 10 and fails for every other code\<close>
  "demo_feed code =
     (if code = PStr ''A''
      then Response 200 (Some (PDict
             [(''meta'', PDict [(''scheme_name'', PStr ''Fund A'')]),
              (''data'', PList [PDict [(''date'', PStr ''02-01-2024''), (''nav'', PStr ''10'')]])]))
      else NetworkError)"


definition demo_locked_fs :: "(rat pyval, string) fs" where
  \<comment> \<open>\<open>./unfold/db.sqlite\<close> exists but is a directory\<close>
  "demo_locked_fs = demo_fs\<lparr>db_path := DbLocked\<rparr>"



definition demo_lots_fs :: "(rat pyval, string) fs" where
  "demo_lots_fs = demo_fs\<lparr>holdings_file := File ''[A:lots]''\<rparr>"


section \<open>Properties\<close>

subsection \<open>Holdings store and token state\<close>

lemma save_holdings_Inr:
  "holdings_file s \<noteq> Locked \<Longrightarrow>
   save_holdings cd h s = Inr (s\<lparr>holdings_file := File (json_dump cd h)\<rparr>)"
  by (simp add: save_holdings_def split: node.splits)

text \<open>
  Claim C3. Saving a sequence of holdings and then loading returns exactly the saved
  sequence, and the file holds nothing but the dump of that sequence, whatever it held
  before. The JSON library is a parameter: the hypothesis says that it reads back what it
  wrote for this value; the file must be one that can be opened for writing.
\<close>
theorem save_then_load_roundtrip:
  assumes codec: "json_load cd (json_dump cd holdings) = Some holdings"
    and writable: "holdings_file s \<noteq> Locked"
  shows "\<exists>s'. save_holdings cd holdings s = Inr s'
           \<and> load_holdings cd s' = holdings
           \<and> holdings_file s' = File (json_dump cd holdings)
           \<and> unfold_config s' = unfold_config s \<and> db_path s' = db_path s"
  using assms by (simp add: save_holdings_Inr load_holdings_def)

text \<open>
  Claim C4. When the holdings file is missing, cannot be opened, or holds text that does
  not parse, \<open>load_holdings\<close> returns the empty list; it has no error result at all,
  since the bare \<open>except\<close> of the source catches everything.
\<close>
theorem load_fail_open:
  assumes "holdings_file s = Absent \<or> holdings_file s = Locked
           \<or> (\<exists>txt. holdings_file s = File txt \<and> json_load cd txt = None)"
  shows "load_holdings cd s = PList []"
  using assms by (auto simp: load_holdings_def)

lemma save_unfold_config_Inr:
  "unfold_config s \<noteq> Locked \<Longrightarrow>
   save_unfold_config cd rnd a r u s
     = Inr (s\<lparr>unfold_config := File (yaml_dump cd (token_record rnd a r u))\<rparr>)"
  by (simp add: save_unfold_config_def Let_def split: node.splits)

lemma token_record_access:
  "ebind (py_get (token_record rnd a r u) ''token'' (PDict [])) (\<lambda>t. py_get t ''access'' PNone)
     = Inr a"
  by (simp add: token_record_def py_get_def ebind_def)

lemma get_unfold_token_saved:
  assumes "yaml_safe_load cd (yaml_dump cd (token_record rnd a r u)) = Some (token_record rnd a r u)"
    and "unfold_config s \<noteq> Locked"
  shows "\<exists>s'. save_unfold_config cd rnd a r u s = Inr s' \<and> get_unfold_token cd s' = a"
  using assms
  by (simp add: save_unfold_config_Inr get_unfold_token_def token_record_access)

lemma truthy_not_None: "py_truthy ops v \<Longrightarrow> v \<noteq> PNone"
  by (auto simp: py_truthy_def)

text \<open>
  Claim C5. With no token file the status endpoint reports not logged in; right after
  \<open>save_unfold_config\<close> with non-empty access and refresh tokens, \<open>get_unfold_token\<close>
  returns the stored access token and the status endpoint reports logged in. The YAML
  library is a parameter that reads back the record it wrote.
\<close>
theorem logged_in_iff_token_saved:
  "(unfold_config s = Absent \<longrightarrow> \<not> fold_status cd s) \<and>
   (py_truthy ops access \<and> py_truthy ops refresh
    \<and> yaml_safe_load cd (yaml_dump cd (token_record rnd access refresh user_id))
        = Some (token_record rnd access refresh user_id)
    \<and> unfold_config s \<noteq> Locked \<longrightarrow>
    (\<exists>s'. save_unfold_config cd rnd access refresh user_id s = Inr s'
        \<and> get_unfold_token cd s' = access \<and> fold_status cd s'))"
proof (intro conjI impI)
  assume "unfold_config s = Absent"
  then show "\<not> fold_status cd s"
    by (simp add: fold_status_def get_unfold_token_def)
next
  assume h: "py_truthy ops access \<and> py_truthy ops refresh
    \<and> yaml_safe_load cd (yaml_dump cd (token_record rnd access refresh user_id))
        = Some (token_record rnd access refresh user_id)
    \<and> unfold_config s \<noteq> Locked"
  then obtain s' where s': "save_unfold_config cd rnd access refresh user_id s = Inr s'"
      "get_unfold_token cd s' = access"
    using get_unfold_token_saved by blast
  moreover have "access \<noteq> PNone" using h truthy_not_None by blast
  ultimately show "\<exists>s'. save_unfold_config cd rnd access refresh user_id s = Inr s'
        \<and> get_unfold_token cd s' = access \<and> fold_status cd s'"
    by (simp add: fold_status_def)
qed

theorem save_then_load_roundtrip_witness:
  "json_load demo_codec (json_dump demo_codec demo_holdings) = Some demo_holdings
   \<and> holdings_file demo_fs \<noteq> Locked
   \<and> load_holdings demo_codec demo_fs = PList [PStr ''x'']
   \<and> (\<exists>s'. save_holdings demo_codec demo_holdings demo_fs = Inr s'
           \<and> load_holdings demo_codec s' = demo_holdings
           \<and> holdings_file s' = File (json_dump demo_codec demo_holdings)
           \<and> unfold_config s' = unfold_config demo_fs \<and> db_path s' = db_path demo_fs)"
proof -
  have h1: "json_load demo_codec (json_dump demo_codec demo_holdings) = Some demo_holdings"
    by (simp add: demo_codec_def)
  have h2: "holdings_file demo_fs \<noteq> Locked"
    by (simp add: demo_fs_def)
  have h3: "load_holdings demo_codec demo_fs = PList [PStr ''x'']"
    by (simp add: load_holdings_def demo_fs_def demo_codec_def)
  show ?thesis
    using h1 h2 h3 save_then_load_roundtrip [OF h1 h2] by simp
qed

theorem load_fail_open_witness:
  "(holdings_file (demo_fs\<lparr>holdings_file := File ''{oops''\<rparr>) = Absent
    \<or> holdings_file (demo_fs\<lparr>holdings_file := File ''{oops''\<rparr>) = Locked
    \<or> (\<exists>txt. holdings_file (demo_fs\<lparr>holdings_file := File ''{oops''\<rparr>) = File txt
           \<and> json_load demo_codec txt = None))
   \<and> load_holdings demo_codec (demo_fs\<lparr>holdings_file := File ''{oops''\<rparr>) = PList []"
proof -
  have h: "holdings_file (demo_fs\<lparr>holdings_file := File ''{oops''\<rparr>) = Absent
    \<or> holdings_file (demo_fs\<lparr>holdings_file := File ''{oops''\<rparr>) = Locked
    \<or> (\<exists>txt. holdings_file (demo_fs\<lparr>holdings_file := File ''{oops''\<rparr>) = File txt
           \<and> json_load demo_codec txt = None)"
    by (simp add: demo_codec_def)
  show ?thesis
    using h load_fail_open [OF h] by simp
qed

theorem logged_in_iff_token_saved_witness:
  "unfold_config demo_fs = Absent \<and> \<not> fold_status demo_codec demo_fs
   \<and> py_truthy demo_ops (PStr ''acc'') \<and> py_truthy demo_ops (PStr ''ref'')
   \<and> (\<exists>s'. save_unfold_config demo_codec ''0a1b2c3d'' (PStr ''acc'') (PStr ''ref'') (PStr ''u-1'')
               demo_fs = Inr s'
         \<and> get_unfold_token demo_codec s' = PStr ''acc'' \<and> fold_status demo_codec s')"
proof -
  have h1: "unfold_config demo_fs = Absent"
    by (simp add: demo_fs_def)
  have h2: "py_truthy demo_ops (PStr ''acc'') \<and> py_truthy demo_ops (PStr ''ref'')
    \<and> yaml_safe_load demo_codec
         (yaml_dump demo_codec (token_record ''0a1b2c3d'' (PStr ''acc'') (PStr ''ref'') (PStr ''u-1'')))
        = Some (token_record ''0a1b2c3d'' (PStr ''acc'') (PStr ''ref'') (PStr ''u-1''))
    \<and> unfold_config demo_fs \<noteq> Locked"
    by (simp add: py_truthy_def demo_codec_def demo_token_def demo_fs_def)
  show ?thesis
    using h1 h2
      logged_in_iff_token_saved [of demo_fs demo_codec demo_ops "PStr ''acc''" "PStr ''ref''"
        "''0a1b2c3d''" "PStr ''u-1''"]
    by blast
qed

subsection \<open>Transactions and sync\<close>





lemma get_transactions_db_present:
  "db_path s \<noteq> DbAbsent \<Longrightarrow>
   get_transactions ops cd tool s =
     (case sqlite3_connect (db_path s) of
        Inl e \<Rightarrow> (Inl e, s, 0)
      | Inr conn \<Rightarrow> (case read_transactions conn of
                      Inl e \<Rightarrow> (Inr [], s, 0)
                    | Inr results \<Rightarrow> (Inr results, s, 0)))"
  by (simp add: get_transactions_def)

lemma get_transactions_db_absent:
  "db_path s = DbAbsent \<Longrightarrow>
   get_transactions ops cd tool s =
     (let s1 = snd (subprocess_run tool s)
      in if db_path s1 = DbAbsent then (Inr [], s1, 1)
         else case sqlite3_connect (db_path s1) of
                Inl e \<Rightarrow> (Inl e, s1, 1)
              | Inr conn \<Rightarrow> (case read_transactions conn of
                              Inl e \<Rightarrow> (Inr [], s1, 1)
                            | Inr results \<Rightarrow> (Inr results, s1, 1)))"
  by (auto simp: get_transactions_def Let_def split: sum.splits)


lemma subprocess_run_cases:
  "subprocess_run tool s =
     (case fst (tool s) of
        Exited rc \<Rightarrow> (if rc = 0 then Inr () else Inl CalledProcessError, snd (tool s))
      | NotStarted \<Rightarrow> (Inl OSError, s))"
  by (cases "tool s") (auto simp: subprocess_run_def split: run_result.splits)

lemma sync_transactions_ok:
  "fst (tool s) = Exited 0 \<Longrightarrow>
   sync_transactions tool s = (Inr (PDict [(''status'', PStr ''success'')]), snd (tool s))"
  by (simp add: sync_transactions_def subprocess_run_cases)

lemma sync_transactions_nonzero:
  "fst (tool s) = Exited rc \<Longrightarrow> rc \<noteq> 0 \<Longrightarrow>
   sync_transactions tool s =
     (Inl (HTTPException 500 (Lit ''Failed to sync. Ensure you are logged in.'')), snd (tool s))"
  by (simp add: sync_transactions_def subprocess_run_cases)

lemma sync_transactions_not_started:
  "fst (tool s) = NotStarted \<Longrightarrow>
   sync_transactions tool s = (Inl (HTTPException 500 (StrOf OSError)), s)"
  by (simp add: sync_transactions_def subprocess_run_cases)

text \<open>
  Claim C8. The sync endpoint succeeds exactly when the tool exits with status 0. When the
  tool exits with another status or cannot be started, the endpoint raises an
  \<open>HTTPException\<close> with status 500, whereas \<open>get_transactions\<close> on a missing database
  swallows the same failure and returns the empty list after that one run.
\<close>
theorem explicit_sync_reports_failure:
  fixes ops :: "'f fops" and s :: "('v, 't::linorder) fs"
  shows "((\<exists>r::'f pyval. fst (sync_transactions tool s) = Inr r) \<longleftrightarrow> fst (tool s) = Exited 0)
   \<and> (fst (tool s) \<noteq> Exited 0 \<longrightarrow>
        (\<exists>d. fst (sync_transactions tool s) = (Inl (HTTPException 500 d) :: exn + 'f pyval))
        \<and> (db_path s = DbAbsent \<and> db_path (snd (subprocess_run tool s)) = DbAbsent \<longrightarrow>
             get_transactions ops cd tool s = (Inr [], snd (subprocess_run tool s), 1)))"
proof -
  have ok: "\<exists>r::'f pyval. fst (sync_transactions tool s) = Inr r" if "fst (tool s) = Exited 0"
    using that by (simp add: sync_transactions_ok)
  have bad: "\<exists>d. fst (sync_transactions tool s) = (Inl (HTTPException 500 d) :: exn + 'f pyval)"
    if "fst (tool s) \<noteq> Exited 0"
  proof (cases "fst (tool s)")
    case (Exited rc)
    with that have "rc \<noteq> 0" by auto
    with Exited show ?thesis by (simp add: sync_transactions_nonzero)
  next
    case NotStarted
    then show ?thesis by (simp add: sync_transactions_not_started)
  qed
  have silent: "get_transactions ops cd tool s = (Inr [], snd (subprocess_run tool s), 1)"
    if "db_path s = DbAbsent" "db_path (snd (subprocess_run tool s)) = DbAbsent"
    using that by (simp add: get_transactions_db_absent)
  have only_if: "fst (tool s) = Exited 0" if "fst (sync_transactions tool s) = (Inr r :: exn + 'f pyval)" for r
  proof (rule ccontr)
    assume "fst (tool s) \<noteq> Exited 0"
    from bad [OF this] that show False by auto
  qed
  from ok bad silent only_if show ?thesis
    by blast
qed

theorem explicit_sync_reports_failure_witness:
  "fst (demo_tool_fail demo_fs) \<noteq> Exited 0
   \<and> db_path demo_fs = DbAbsent \<and> db_path (snd (subprocess_run demo_tool_fail demo_fs)) = DbAbsent
   \<and> fst (sync_transactions demo_tool_fail demo_fs :: (exn + rat pyval) \<times> _)
       = Inl (HTTPException 500 (Lit ''Failed to sync. Ensure you are logged in.''))
   \<and> get_transactions demo_ops demo_codec demo_tool_fail demo_fs = (Inr [], demo_fs, 1)"
proof -
  have h1: "fst (demo_tool_fail demo_fs) \<noteq> Exited 0"
    by (simp add: demo_tool_fail_def)
  have h2: "db_path demo_fs = DbAbsent \<and> db_path (snd (subprocess_run demo_tool_fail demo_fs)) = DbAbsent"
    by (simp add: demo_fs_def demo_tool_fail_def subprocess_run_def)
  have h3: "snd (subprocess_run demo_tool_fail demo_fs) = demo_fs"
    by (simp add: demo_tool_fail_def subprocess_run_def)
  have h4: "fst (sync_transactions demo_tool_fail demo_fs :: (exn + rat pyval) \<times> _)
       = Inl (HTTPException 500 (Lit ''Failed to sync. Ensure you are logged in.''))"
    by (simp add: sync_transactions_def demo_tool_fail_def subprocess_run_def)
  show ?thesis
    using h1 h2 h3 h4
      explicit_sync_reports_failure [of demo_tool_fail demo_fs demo_ops demo_codec]
    by simp
qed



lemma get_transactions_raises_iff:
  "(\<exists>e. fst (get_transactions ops cd tool s) = Inl e)
     \<longleftrightarrow> db_path (if db_path s = DbAbsent then snd (subprocess_run tool s) else s) = DbLocked"
  by (cases "db_path s = DbAbsent")
     (auto simp: get_transactions_db_absent get_transactions_db_present Let_def sqlite3_connect_def
           split: sum.splits dbnode.splits)

lemma get_transactions_runs:
  "snd (snd (get_transactions ops cd tool s)) = (if db_path s = DbAbsent then 1 else 0)"
  by (cases "db_path s = DbAbsent")
     (auto simp: get_transactions_db_absent get_transactions_db_present Let_def
           split: sum.splits)

lemma get_transactions_empty_cases:
  assumes "db_path (if db_path s = DbAbsent then snd (subprocess_run tool s) else s) = d"
    and "d = DbAbsent \<or> d = DbFile NotADatabase \<or> d = DbFile (Database None)
         \<or> d = DbFile (Database (Some BadSchema))"
  shows "fst (get_transactions ops cd tool s) = Inr []"
  using assms
  by (cases "db_path s = DbAbsent")
     (auto simp: get_transactions_db_absent get_transactions_db_present Let_def sqlite3_connect_def
           read_transactions_def split: sum.splits)

text \<open>
  Claim C6. \<open>get_transactions\<close> runs the tool exactly once when the database is missing
  and not at all otherwise (\<open>get_transactions_runs\<close>), and returns the empty list when the
  database is still missing, is not a database, has no \<open>transactions\<close> table or the query
  fails (\<open>get_transactions_empty_cases\<close>). It is not true that it never raises:
  \<open>sqlite3.connect\<close> stands before the \<open>try\<close>, so when the database path exists but
  cannot be opened the \<open>OperationalError\<close> reaches the caller
  (\<open>get_transactions_raises_iff\<close>). The theorem runs the function on such a state.
\<close>

theorem recent_raises_on_unopenable_db:
  "get_transactions demo_ops demo_codec demo_tool_fail demo_locked_fs
     = (Inl OperationalError, demo_locked_fs, 0)"
  by (simp add: get_transactions_db_present demo_locked_fs_def sqlite3_connect_def)

subsection \<open>Verification\<close>










subsection \<open>Portfolio valuation\<close>





lemma portfolio_loop_step:
  "portfolio_loop ops feed (h # hs) (entries, running) =
     (case holding_fields ops h of
        Inl e \<Rightarrow> Inl e
      | Inr cu \<Rightarrow>
          (case priced_holding ops feed h of
             Some (entry, v) \<Rightarrow>
               portfolio_loop ops feed hs (entries @ [entry], py_add_float ops running v)
           | None \<Rightarrow> portfolio_loop ops feed hs (entries, running)))"
  by (auto simp: priced_holding_def split: sum.splits option.splits prod.splits)


lemma portfolio_loop_Inr_iff:
  "(\<exists>r. portfolio_loop ops feed hs acc = Inr r)
     \<longleftrightarrow> (\<forall>h \<in> set hs. \<exists>code held. holding_fields ops h = Inr (code, held))"
proof (induction hs arbitrary: acc)
  case Nil
  then show ?case by simp
next
  case (Cons h hs)
  obtain entries running where acc: "acc = (entries, running)" by (cases acc)
  show ?case
  proof (cases "holding_fields ops h")
    case (Inl e)
    then show ?thesis unfolding acc by (simp only: portfolio_loop_step) auto
  next
    case (Inr cu)
    then have ok: "\<exists>code held. holding_fields ops h = Inr (code, held)"
      by (cases cu) auto
    show ?thesis
    proof (cases "priced_holding ops feed h")
      case None
      with Inr ok Cons.IH [of "(entries, running)"] show ?thesis
        unfolding acc by (simp only: portfolio_loop_step) auto
    next
      case (Some ev)
      obtain entry v where ev: "ev = (entry, v)" by (cases ev)
      with Some Inr ok Cons.IH [of "(entries @ [entry], py_add_float ops running v)"]
      show ?thesis
        unfolding acc by (simp only: portfolio_loop_step) auto
    qed
  qed
qed

lemma portfolio_loop_first_error:
  assumes "holding_fields ops h = Inl e"
  shows "portfolio_loop ops feed (h # hs) acc = Inl e"
  using assms by (cases acc) simp



lemma get_portfolio_Inr_iff:
  "(\<exists>r. get_portfolio ops cd feed s = Inr r)
     \<longleftrightarrow> (\<exists>hs. py_iter (load_holdings cd s) = Inr hs
            \<and> (\<forall>h \<in> set hs. \<exists>code held. holding_fields ops h = Inr (code, held)))"
proof (cases "py_iter (load_holdings cd s)")
  case (Inl e)
  then show ?thesis
    by (simp add: get_portfolio_def ebind_def)
next
  case (Inr hs)
  have "(\<exists>r. get_portfolio ops cd feed s = Inr r)
          \<longleftrightarrow> (\<exists>r. portfolio_loop ops feed hs ([], PInt 0) = Inr r)"
    using Inr by (auto simp: get_portfolio_def ebind_def split: sum.splits prod.splits)
  with Inr portfolio_loop_Inr_iff [of ops feed hs "([], PInt 0)"] show ?thesis
    by auto
qed

lemma get_portfolio_first_error:
  assumes "load_holdings cd s = PList (h # rest)" and "holding_fields ops h = Inl e"
  shows "get_portfolio ops cd feed s = Inl e"
  using assms
  by (simp add: get_portfolio_def py_iter_def ebind_def portfolio_loop_first_error)



text \<open>
  Claim C10. \<open>get_portfolio\<close> returns a result exactly when the loaded value can be
  iterated and every element has a \<open>scheme_code\<close> and a \<open>units\<close> convertible to float.
  Otherwise it raises: a list that starts with a string gives \<open>TypeError\<close>, and a first
  holding whose \<open>units\<close> is a string that is not a number gives \<open>ValueError\<close>; the element
  is not skipped, because \<open>holding_fields\<close> is evaluated before the \<open>try\<close>.
\<close>

theorem valuate_total_iff_well_formed:
  "((\<exists>r. get_portfolio ops cd feed s = Inr r)
      \<longleftrightarrow> (\<exists>hs. py_iter (load_holdings cd s) = Inr hs
             \<and> (\<forall>h \<in> set hs. \<exists>code held. holding_fields ops h = Inr (code, held))))
   \<and> (\<forall>x rest. load_holdings cd s = PList (PStr x # rest) \<longrightarrow>
         get_portfolio ops cd feed s = Inl TypeError)
   \<and> (\<forall>c u rest.
         load_holdings cd s = PList (PDict [(''scheme_code'', c), (''units'', PStr u)] # rest)
         \<and> fof_str ops u = None \<longrightarrow>
         get_portfolio ops cd feed s = Inl ValueError)"
proof -
  have strings: "get_portfolio ops cd feed s = Inl TypeError"
    if "load_holdings cd s = PList (PStr x # rest)" for x rest
  proof -
    have "holding_fields ops (PStr x) = Inl TypeError"
      by (simp add: holding_fields_def py_getitem_def ebind_def)
    with that show ?thesis by (rule get_portfolio_first_error)
  qed
  have units: "get_portfolio ops cd feed s = Inl ValueError"
    if "load_holdings cd s = PList (PDict [(''scheme_code'', c), (''units'', PStr u)] # rest)"
      "fof_str ops u = None" for c u rest
  proof -
    have "holding_fields ops (PDict [(''scheme_code'', c), (''units'', PStr u)]) = Inl ValueError"
      using that(2) by (simp add: holding_fields_def py_getitem_def py_float_def ebind_def)
    with that(1) show ?thesis by (rule get_portfolio_first_error)
  qed
  from get_portfolio_Inr_iff [of ops cd feed s] strings units show ?thesis
    by blast
qed








theorem valuate_total_iff_well_formed_witness:
  "load_holdings demo_codec demo_fs = PList [PStr ''x'']
   \<and> get_portfolio demo_ops demo_codec demo_feed demo_fs = Inl TypeError
   \<and> load_holdings demo_codec demo_lots_fs
       = PList [PDict [(''scheme_code'', PStr ''A''), (''units'', PStr ''lots'')]]
   \<and> fof_str demo_ops ''lots'' = None
   \<and> get_portfolio demo_ops demo_codec demo_feed demo_lots_fs = Inl ValueError"
proof -
  have strings: "load_holdings demo_codec demo_fs = PList [PStr ''x'']"
    by (simp add: load_holdings_def demo_fs_def demo_codec_def)
  have lots: "load_holdings demo_codec demo_lots_fs
       = PList [PDict [(''scheme_code'', PStr ''A''), (''units'', PStr ''lots'')]]"
    by (simp add: load_holdings_def demo_lots_fs_def demo_codec_def)
  have not_a_number: "fof_str demo_ops ''lots'' = None"
    by (simp add: demo_ops_def is_digit_def)
  from strings lots not_a_number
    valuate_total_iff_well_formed [of demo_ops demo_codec demo_feed demo_fs]
    valuate_total_iff_well_formed [of demo_ops demo_codec demo_feed demo_lots_fs]
  show ?thesis
    by blast
qed

end
